theory Spec2Isabelle
  imports Main
begin

section \<open>Session orchestration of the OORT Africa Assistant (app.py)\<close>

text \<open>
  The theory embeds the orchestration functions of \<^verbatim>\<open>app.py\<close>:
  \<^verbatim>\<open>toggle_recording\<close>, \<^verbatim>\<open>record_audio\<close>, \<^verbatim>\<open>process_input\<close> and the parts of
  \<^verbatim>\<open>main\<close> that read or write \<^verbatim>\<open>st.session_state\<close>.

  The session store is a record that every function takes and returns. Everything a
  function does beyond returning is appended to a trace kept next to the store: each
  write to the store, each status call (\<^verbatim>\<open>st.error\<close>, \<^verbatim>\<open>st.warning\<close>,
  \<^verbatim>\<open>st.success\<close>, \<^verbatim>\<open>st.spinner\<close>), each call of a collaborator, each started thread
  and each refresh request. A Python exception that leaves a function is a value of the
  function's result.
\<close>

subsection \<open>Python strings\<close>

text \<open>
  A Python \<^verbatim>\<open>str\<close> is a sequence of Unicode code points; the assistant is multilingual,
  so the text is not restricted to one byte per character.
\<close>

type_synonym pystr = "nat list"

definition py_lit :: "string \<Rightarrow> pystr" where
  "py_lit s = map of_char s"

text \<open>
  The code points for which CPython's \<^verbatim>\<open>str.isspace\<close> tests true
  (\<^verbatim>\<open>_PyUnicode_IsWhitespace\<close>).
\<close>

definition py_whitespace :: "nat \<Rightarrow> bool" where
  "py_whitespace c \<longleftrightarrow>
     (0x09 \<le> c \<and> c \<le> 0x0D) \<or> (0x1C \<le> c \<and> c \<le> 0x20) \<or> c = 0x85 \<or> c = 0xA0 \<or>
     c = 0x1680 \<or> (0x2000 \<le> c \<and> c \<le> 0x200A) \<or> c = 0x2028 \<or> c = 0x2029 \<or>
     c = 0x202F \<or> c = 0x205F \<or> c = 0x3000"

text \<open>\<^verbatim>\<open>s.isspace()\<close>: at least one character, and every character is whitespace.\<close>

definition isspace :: "pystr \<Rightarrow> bool" where
  "isspace s \<longleftrightarrow> s \<noteq> [] \<and> list_all py_whitespace s"

text \<open>Truth value of an optional string: \<^verbatim>\<open>None\<close> and \<^verbatim>\<open>""\<close> are false.\<close>

fun truthy :: "pystr option \<Rightarrow> bool" where
  "truthy None = False"
| "truthy (Some s) = (s \<noteq> [])"

subsection \<open>Data model\<close>

datatype role = User | Assistant

record message =
  role :: role
  content :: pystr

datatype language = English | French | Arabic | Swahili

text \<open>
  A raised Python exception with its \<^verbatim>\<open>str(e)\<close>. \<^verbatim>\<open>except Exception\<close> catches the
  first kind only; the second kind stands for the other subclasses of
  \<^verbatim>\<open>BaseException\<close>.
\<close>

datatype raised = Py_Exception pystr | Py_BaseException pystr

text \<open>The two targets handed to \<^verbatim>\<open>threading.Thread\<close>.\<close>

datatype task = Record_audio_task | Speak_task pystr language

text \<open>The two places of \<^verbatim>\<open>main\<close> that call \<^verbatim>\<open>process_input\<close> (lines 188 and 198).\<close>

datatype origin = From_voice | From_chat

datatype event =
    Append_message message
  | Set_recording bool
  | Set_language language
  | Set_last_voice_input "pystr option"
  | St_error pystr
  | St_success pystr
  | St_warning pystr
  | St_spinner pystr
  | Traceback_print
  | St_rerun
  | Kb_query pystr language
  | Listen language nat
  | Thread_start task
  | Call_process_input origin pystr
  | Audio_played pystr language
  | Bare_set_recording bool
  | Bare_set_last_voice_input "pystr option"
  | Bare_rerun

text \<open>
  The four keys of \<^verbatim>\<open>st.session_state\<close> (lines 26 to 36) and the trace.
\<close>

record world =
  messages :: "message list"
  recording :: bool
  language :: language
  last_voice_input :: "pystr option"
  trace :: "event list"

definition initial_world :: world where
  "initial_world =
     \<lparr>messages = [], recording = False, language = English, last_voice_input = None,
      trace = []\<rparr>"

subsection \<open>Primitive effects\<close>

definition log :: "event \<Rightarrow> world \<Rightarrow> world" where
  "log e w = w\<lparr>trace := trace w @ [e]\<rparr>"

definition append_message :: "message \<Rightarrow> world \<Rightarrow> world" where
  "append_message m w = log (Append_message m) (w\<lparr>messages := messages w @ [m]\<rparr>)"

definition set_recording :: "bool \<Rightarrow> world \<Rightarrow> world" where
  "set_recording b w = log (Set_recording b) (w\<lparr>recording := b\<rparr>)"

definition set_language :: "language \<Rightarrow> world \<Rightarrow> world" where
  "set_language l w = log (Set_language l) (w\<lparr>language := l\<rparr>)"

definition set_last_voice_input :: "pystr option \<Rightarrow> world \<Rightarrow> world" where
  "set_last_voice_input t w = log (Set_last_voice_input t) (w\<lparr>last_voice_input := t\<rparr>)"

subsection \<open>Collaborators\<close>

text \<open>
  The modules \<^verbatim>\<open>src.kb_loader\<close> and \<^verbatim>\<open>src.voice_input\<close> are outside the file; the
  functions below take what they compute as parameters:
  \<^verbatim>\<open>kb.query(text, language=...)\<close> returns a string or raises,
  \<^verbatim>\<open>voice_input.is_ready()\<close> is a boolean and
  \<^verbatim>\<open>voice_input.listen(language=..., timeout=...)\<close> returns an optional string or raises.
\<close>

type_synonym kb = "pystr \<Rightarrow> language \<Rightarrow> raised + pystr"

type_synonym listener = "language \<Rightarrow> nat \<Rightarrow> raised + pystr option"

subsection \<open>toggle_recording (lines 55 to 63)\<close>

definition toggle_recording :: "world \<Rightarrow> world" where
  "toggle_recording w =
     (if recording w then set_recording False w
      else log (Thread_start Record_audio_task) (set_recording True w))"

subsection \<open>Streamlit calls in a thread without a script run\<close>

text \<open>
  \<^verbatim>\<open>toggle_recording\<close> starts \<^verbatim>\<open>record_audio\<close> with
  \<^verbatim>\<open>threading.Thread(target=record_audio).start()\<close> (line 63) and attaches no script-run
  context to the thread; nothing else calls \<^verbatim>\<open>record_audio\<close>. In such a thread each
  evaluation of \<^verbatim>\<open>st.session_state\<close> yields a fresh, empty store of the library's:
  reading a key raises \<^verbatim>\<open>AttributeError\<close> (an \<^verbatim>\<open>Exception\<close>; its message is the
  library's and is the parameter \<open>msg\<close>), an assignment changes a store that nothing
  reads afterwards, and \<^verbatim>\<open>st.rerun()\<close> finds no script run to restart and returns.
  The session's four keys are therefore not written by the thread. The assignments and
  the call are recorded in the trace under names of their own; a status call
  (\<^verbatim>\<open>st.error\<close>, \<^verbatim>\<open>st.warning\<close>, \<^verbatim>\<open>st.success\<close>, \<^verbatim>\<open>st.spinner\<close>) is recorded as the call
  that was made.
\<close>

definition bare_session_state_language :: "pystr \<Rightarrow> raised + language" where
  "bare_session_state_language msg = Inl (Py_Exception msg)"

definition bare_set_recording :: "bool \<Rightarrow> world \<Rightarrow> world" where
  "bare_set_recording b w = log (Bare_set_recording b) w"

definition bare_set_last_voice_input :: "pystr option \<Rightarrow> world \<Rightarrow> world" where
  "bare_set_last_voice_input t w = log (Bare_set_last_voice_input t) w"

definition bare_rerun :: "world \<Rightarrow> world" where
  "bare_rerun w = log Bare_rerun w"

subsection \<open>record_audio (lines 65 to 91), as the thread of line 63 runs it\<close>

text \<open>
  The body of the \<^verbatim>\<open>try\<close> statement (lines 74 to 83). The argument
  \<^verbatim>\<open>st.session_state.language\<close> is evaluated before \<^verbatim>\<open>voice_input.listen\<close> is called.
  The first component is the exception that leaves the body, if any.
\<close>

definition record_audio_try :: "pystr \<Rightarrow> listener \<Rightarrow> world \<Rightarrow> raised option \<times> world" where
  "record_audio_try msg listen w =
     (let w1 = log (St_spinner (py_lit ''Listening...'')) w
      in case bare_session_state_language msg of
           Inl e \<Rightarrow> (Some e, w1)
         | Inr lang \<Rightarrow>
             (let w2 = log (Listen lang 15) w1;
                  nothing_heard =
                    log (St_warning
                      (py_lit ''I didn't hear anything. Please try speaking again.'')) w2
              in case listen lang 15 of
                   Inl e \<Rightarrow> (Some e, w2)
                 | Inr None \<Rightarrow> (None, nothing_heard)
                 | Inr (Some text) \<Rightarrow>
                     (if text \<noteq> [] then
                        (None,
                         bare_set_last_voice_input (Some text)
                           (log (St_success (py_lit ''Recognized: '' @ text)) w2))
                      else (None, nothing_heard))))"

text \<open>The handler \<^verbatim>\<open>except Exception as e\<close> (lines 84 to 87).\<close>

definition record_audio_except :: "raised option \<times> world \<Rightarrow> raised option \<times> world" where
  "record_audio_except rw =
     (case rw of
        (Some (Py_Exception m), w) \<Rightarrow>
          (None,
           log Traceback_print
             (log (St_error (py_lit ''Error during voice recognition: '' @ m)) w))
      | (r, w) \<Rightarrow> (r, w))"

text \<open>
  The \<^verbatim>\<open>finally\<close> block (lines 88 to 91); an exception still in flight goes on after
  it, since \<^verbatim>\<open>st.rerun()\<close> returns.
\<close>

definition record_audio_finally :: "raised option \<times> world \<Rightarrow> raised option \<times> world" where
  "record_audio_finally rw =
     (case rw of (r, w) \<Rightarrow> (r, bare_rerun (bare_set_recording False w)))"

definition record_audio :: "pystr \<Rightarrow> bool \<Rightarrow> listener \<Rightarrow> world \<Rightarrow> raised option \<times> world" where
  "record_audio msg is_ready listen w =
     (if \<not> is_ready then
        (None,
         bare_rerun (bare_set_recording False (log (St_error (py_lit
           ''Voice input is not available. Please check if the speech recognition models are properly installed.'')) w)))
      else record_audio_finally (record_audio_except (record_audio_try msg listen w)))"

subsection \<open>process_input (lines 94 to 113)\<close>

definition process_input :: "kb \<Rightarrow> pystr \<Rightarrow> world \<Rightarrow> raised option \<times> world" where
  "process_input kb_query user_input w =
     (if user_input = [] \<or> isspace user_input then (None, w)
      else if messages w \<noteq> [] \<and> role (last (messages w)) = User \<and>
              content (last (messages w)) = user_input then (None, w)
      else
        let w1 = append_message \<lparr>role = User, content = user_input\<rparr> w;
            w2 = log (Kb_query user_input (language w1)) w1
        in case kb_query user_input (language w1) of
             Inl e \<Rightarrow> (Some e, w2)
           | Inr response \<Rightarrow>
               let w3 = append_message \<lparr>role = Assistant, content = response\<rparr> w2
               in (None, log (Thread_start (Speak_task response (language w3))) w3))"

subsection \<open>main (lines 116 to 213)\<close>

text \<open>
  What one run of the script receives from the widgets: whether the microphone button was
  pressed (its \<^verbatim>\<open>on_click\<close> callback runs before the script), the language chosen in
  the select box, and the text submitted in the chat box, if any.
\<close>

record cycle_input =
  mic_clicked :: bool
  selected_language :: language
  chat_input :: "pystr option"

text \<open>
  How a run of the script ends: it reaches the last line, it stops at \<^verbatim>\<open>st.rerun()\<close>,
  or an exception leaves it.
\<close>

datatype script_end = Finished | Rerun_requested | Uncaught raised

text \<open>
  Lines 185 to 188. The call of \<^verbatim>\<open>process_input\<close> is recorded in the trace with its
  origin and its argument.
\<close>

definition process_voice_input :: "kb \<Rightarrow> world \<Rightarrow> raised option \<times> world" where
  "process_voice_input kb_query w =
     (case last_voice_input w of
        None \<Rightarrow> (None, w)
      | Some voice_text \<Rightarrow>
          if voice_text = [] then (None, w)
          else process_input kb_query voice_text
                 (log (Call_process_input From_voice voice_text)
                   (set_last_voice_input None w)))"

text \<open>Lines 196 to 199.\<close>

definition process_chat_input :: "kb \<Rightarrow> pystr option \<Rightarrow> world \<Rightarrow> script_end \<times> world" where
  "process_chat_input kb_query user_input w =
     (case user_input of
        None \<Rightarrow> (Finished, w)
      | Some s \<Rightarrow>
          if s = [] then (Finished, w)
          else (case process_input kb_query s (log (Call_process_input From_chat s) w) of
                  (Some e, w') \<Rightarrow> (Uncaught e, w')
                | (None, w') \<Rightarrow> (Rerun_requested, log St_rerun w')))"

text \<open>
  The script body. The calls that only draw (title, image, status lines, the chat
  history, the button) neither read a widget value that is used nor write the store,
  and are left out.
\<close>

definition main :: "kb \<Rightarrow> cycle_input \<Rightarrow> world \<Rightarrow> script_end \<times> world" where
  "main kb_query inp w =
     (if selected_language inp \<noteq> language w then
        (Rerun_requested, log St_rerun (set_language (selected_language inp) w))
      else
        case process_voice_input kb_query w of
          (Some e, w1) \<Rightarrow> (Uncaught e, w1)
        | (None, w1) \<Rightarrow> process_chat_input kb_query (chat_input inp) w1)"

text \<open>One refresh cycle: the button's callback, if the button was pressed, then the script.\<close>

definition refresh_cycle :: "kb \<Rightarrow> cycle_input \<Rightarrow> world \<Rightarrow> script_end \<times> world" where
  "refresh_cycle kb_query inp w =
     main kb_query inp (if mic_clicked inp then toggle_recording w else w)"

text \<open>
  Successive refresh cycles on the same session; the store survives however a run ends.
\<close>

fun refresh_cycles :: "kb \<Rightarrow> cycle_input list \<Rightarrow> world \<Rightarrow> world" where
  "refresh_cycles kb_query [] w = w"
| "refresh_cycles kb_query (inp # inps) w =
     refresh_cycles kb_query inps (snd (refresh_cycle kb_query inp w))"

text \<open>The calls of \<^verbatim>\<open>process_input\<close> on a staged transcript that a trace records.\<close>

fun is_voice_call :: "event \<Rightarrow> bool" where
  "is_voice_call (Call_process_input From_voice t) = True"
| "is_voice_call _ = False"

definition voice_calls :: "event list \<Rightarrow> nat" where
  "voice_calls evs = length (filter is_voice_call evs)"

text \<open>The writes of the recording flag and the refresh requests that a trace records.\<close>

fun is_cleanup :: "event \<Rightarrow> bool" where
  "is_cleanup (Set_recording b) = True"
| "is_cleanup St_rerun = True"
| "is_cleanup _ = False"

subsection \<open>The speak task\<close>

text \<open>
  Modelled from the spec: \<^verbatim>\<open>voice_output.speak\<close>, the target of the thread that
  \<^verbatim>\<open>process_input\<close> starts at line 113; the module \<^verbatim>\<open>src.voice_output\<close> is not among
  the sources. Section 4.3, step 5: the task checks synthesis readiness, and on success
  plays audio, otherwise fails silently. Section 6: \<^verbatim>\<open>speak\<close> has the audio playback as
  its only side effect and may raise on failure. The playback is the parameter
  \<open>synthesize\<close>, which returns the exception it raised, if any.
\<close>

definition speak ::
  "bool \<Rightarrow> (pystr \<Rightarrow> language \<Rightarrow> raised option) \<Rightarrow> pystr \<Rightarrow> language \<Rightarrow> world \<Rightarrow> raised option \<times> world"
where
  "speak synthesis_ready synthesize text lang w =
     (if \<not> synthesis_ready then (None, w)
      else case synthesize text lang of
             None \<Rightarrow> (None, log (Audio_played text lang) w)
           | Some e \<Rightarrow> (Some e, w))"

text \<open>
  \<^verbatim>\<open>threading.Thread(target=...).start()\<close>: an exception that leaves the target ends
  that thread only (it is handed to \<^verbatim>\<open>threading.excepthook\<close>); the first component
  is what reaches the thread that called \<^verbatim>\<open>start\<close>.
\<close>

definition run_thread :: "(world \<Rightarrow> raised option \<times> world) \<Rightarrow> world \<Rightarrow> raised option \<times> world" where
  "run_thread target w = (None, snd (target w))"

subsection \<open>Reading a trace\<close>

text \<open>The events that were appended to the trace between the worlds \<open>w\<close> and \<open>w'\<close>.\<close>

definition emitted :: "world \<Rightarrow> world \<Rightarrow> event list" where
  "emitted w w' = drop (length (trace w)) (trace w')"

subsection \<open>Example collaborators and sessions\<close>

text \<open>
  A knowledge base that answers every question but one, on which it raises; a recogniser
  that hears nothing; a recogniser that fails; a synthesiser whose playback fails.
\<close>

definition example_kb :: kb where
  "example_kb text lang =
     (if text = py_lit ''crash'' then Inl (Py_Exception (py_lit ''index missing''))
      else Inr (py_lit ''In March.''))"

definition silent_listener :: listener where
  "silent_listener lang timeout = Inr None"

definition failing_listener :: listener where
  "failing_listener lang timeout = Inl (Py_Exception (py_lit ''no microphone''))"

definition broken_synthesizer :: "pystr \<Rightarrow> language \<Rightarrow> raised option" where
  "broken_synthesizer text lang = Some (Py_Exception (py_lit ''no audio device''))"

text \<open>A session whose key \<^verbatim>\<open>last_voice_input\<close> holds the transcript "hello".\<close>

definition staged_world :: world where
  "staged_world = initial_world\<lparr>last_voice_input := Some (py_lit ''hello'')\<rparr>"

text \<open>A session whose history ends with the user's message "hi", and one that is recording.\<close>

definition asked_world :: world where
  "asked_world = initial_world\<lparr>messages := [\<lparr>role = User, content = py_lit ''hi''\<rparr>]\<rparr>"

definition recording_world :: world where
  "recording_world = initial_world\<lparr>recording := True\<rparr>"

text \<open>
  A message for the \<^verbatim>\<open>AttributeError\<close> that reading a key of an empty store raises.
\<close>

definition example_attribute_error :: pystr where
  "example_attribute_error = py_lit ''st.session_state has no attribute language''"

text \<open>A run of the script in which no widget was used.\<close>

definition idle_cycle :: cycle_input where
  "idle_cycle = \<lparr>mic_clicked = False, selected_language = English, chat_input = None\<rparr>"

section \<open>Auxiliary facts\<close>

lemmas example_defs =
  example_kb_def silent_listener_def failing_listener_def broken_synthesizer_def
  staged_world_def asked_world_def recording_world_def idle_cycle_def initial_world_def
  example_attribute_error_def py_lit_def

lemmas effect_defs =
  log_def append_message_def set_recording_def set_language_def set_last_voice_input_def

lemmas record_audio_defs =
  record_audio_def record_audio_try_def record_audio_except_def record_audio_finally_def
  bare_session_state_language_def bare_set_recording_def bare_set_last_voice_input_def
  bare_rerun_def

lemma emittedI: "trace w' = trace w @ es \<Longrightarrow> trace w' = trace w @ emitted w w'"
  by (simp add: emitted_def)

lemma voice_calls_append [simp]: "voice_calls (xs @ ys) = voice_calls xs + voice_calls ys"
  by (simp add: voice_calls_def)

lemma voice_calls_Nil [simp]: "voice_calls [] = 0"
  by (simp add: voice_calls_def)

lemma voice_calls_Cons [simp]:
  "voice_calls (e # evs) = (if is_voice_call e then 1 else 0) + voice_calls evs"
  by (simp add: voice_calls_def)

lemma process_input_last_voice_input:
  "last_voice_input (snd (process_input kb_query t w)) = last_voice_input w"
  by (simp add: process_input_def effect_defs Let_def split: sum.splits)

lemma process_input_voice_calls:
  "voice_calls (trace (snd (process_input kb_query t w))) = voice_calls (trace w)"
  by (simp add: process_input_def effect_defs Let_def split: sum.splits)

lemma process_input_trace:
  "trace (snd (process_input kb_query t w)) =
     trace w @ emitted w (snd (process_input kb_query t w))"
  by (simp add: process_input_def effect_defs Let_def emitted_def split: sum.splits)

lemma toggle_recording_voice:
  "last_voice_input (toggle_recording w) = last_voice_input w"
  "voice_calls (trace (toggle_recording w)) = voice_calls (trace w)"
  by (simp_all add: toggle_recording_def effect_defs)

lemma process_voice_input_staged:
  assumes "last_voice_input w = Some t" and "t \<noteq> []"
  shows "last_voice_input (snd (process_voice_input kb_query w)) = None"
    and "voice_calls (trace (snd (process_voice_input kb_query w))) = voice_calls (trace w) + 1"
  using assms
  by (simp_all add: process_voice_input_def process_input_last_voice_input
      process_input_voice_calls effect_defs)

lemma process_voice_input_unstaged:
  assumes "\<not> truthy (last_voice_input w)"
  shows "process_voice_input kb_query w = (None, w)"
  using assms by (cases "last_voice_input w") (simp_all add: process_voice_input_def)

lemma process_chat_input_voice:
  "last_voice_input (snd (process_chat_input kb_query u w)) = last_voice_input w"
  "voice_calls (trace (snd (process_chat_input kb_query u w))) = voice_calls (trace w)"
proof -
  have "last_voice_input (snd (process_chat_input kb_query u w)) = last_voice_input w \<and>
        voice_calls (trace (snd (process_chat_input kb_query u w))) = voice_calls (trace w)"
  proof (cases u)
    case None
    then show ?thesis by (simp add: process_chat_input_def)
  next
    case (Some s)
    let ?w = "log (Call_process_input From_chat s) w"
    obtain r w' where eq: "process_input kb_query s ?w = (r, w')"
      by (cases "process_input kb_query s ?w")
    have "last_voice_input w' = last_voice_input w"
      using process_input_last_voice_input [of kb_query s ?w] eq by (simp add: log_def)
    moreover have "voice_calls (trace w') = voice_calls (trace w)"
      using process_input_voice_calls [of kb_query s ?w] eq by (simp add: log_def)
    ultimately show ?thesis
      using Some eq by (cases r) (simp_all add: process_chat_input_def log_def)
  qed
  then show "last_voice_input (snd (process_chat_input kb_query u w)) = last_voice_input w"
    and "voice_calls (trace (snd (process_chat_input kb_query u w))) = voice_calls (trace w)"
    by simp_all
qed

lemma process_chat_input_trace:
  "trace (snd (process_chat_input kb_query u w)) =
     trace w @ emitted w (snd (process_chat_input kb_query u w))"
proof (cases "u = None \<or> u = Some []")
  case True
  then have "process_chat_input kb_query u w = (Finished, w)"
    by (auto simp: process_chat_input_def)
  then show ?thesis by (simp add: emitted_def)
next
  case False
  then obtain s where s: "u = Some s" "s \<noteq> []" by (cases u) auto
  let ?w = "log (Call_process_input From_chat s) w"
  obtain r w' where eq: "process_input kb_query s ?w = (r, w')"
    by (cases "process_input kb_query s ?w")
  have "trace w' = trace ?w @ emitted ?w w'"
    using process_input_trace [of kb_query s ?w] eq by simp
  then have w': "trace w' = trace w @ Call_process_input From_chat s # emitted ?w w'"
    by (simp add: log_def)
  show ?thesis
  proof (cases r)
    case None
    then have "snd (process_chat_input kb_query u w) = log St_rerun w'"
      using s eq by (simp add: process_chat_input_def)
    moreover have "trace (log St_rerun w') =
        trace w @ (Call_process_input From_chat s # emitted ?w w' @ [St_rerun])"
      using w' by (simp add: log_def)
    ultimately show ?thesis using emittedI [of "log St_rerun w'" w] by simp
  next
    case (Some e)
    then have "snd (process_chat_input kb_query u w) = w'"
      using s eq by (simp add: process_chat_input_def)
    then show ?thesis using emittedI [OF w'] by simp
  qed
qed

lemma main_unstaged:
  assumes "\<not> truthy (last_voice_input w)"
  shows "\<not> truthy (last_voice_input (snd (main kb_query inp w)))"
    and "voice_calls (trace (snd (main kb_query inp w))) = voice_calls (trace w)"
  using assms
  by (simp_all add: main_def process_voice_input_unstaged process_chat_input_voice effect_defs)

lemma main_staged:
  "\<not> truthy (last_voice_input (snd (main kb_query inp w))) \<and>
     voice_calls (trace (snd (main kb_query inp w))) \<le> voice_calls (trace w) + 1 \<or>
   last_voice_input (snd (main kb_query inp w)) = last_voice_input w \<and>
     voice_calls (trace (snd (main kb_query inp w))) = voice_calls (trace w)"
proof (cases "truthy (last_voice_input w)")
  case False
  then show ?thesis using main_unstaged [of w kb_query inp] by simp
next
  case True
  then obtain t where t: "last_voice_input w = Some t" "t \<noteq> []"
    by (cases "last_voice_input w") auto
  show ?thesis
  proof (cases "selected_language inp = language w")
    case False
    then show ?thesis by (simp add: main_def effect_defs)
  next
    case same: True
    obtain r w1 where pv: "process_voice_input kb_query w = (r, w1)"
      by (cases "process_voice_input kb_query w")
    have w1: "last_voice_input w1 = None" "voice_calls (trace w1) = voice_calls (trace w) + 1"
      using process_voice_input_staged(1,2) [OF t, of kb_query] pv by simp_all
    show ?thesis
      using same pv w1 by (cases r) (simp_all add: main_def process_chat_input_voice)
  qed
qed

lemma main_order:
  assumes "selected_language inp = language w" and "last_voice_input w = Some t" and "t \<noteq> []"
  shows "take 2 (emitted w (snd (main kb_query inp w))) =
           [Set_last_voice_input None, Call_process_input From_voice t]"
proof -
  let ?w = "log (Call_process_input From_voice t) (set_last_voice_input None w)"
  obtain r w1 where pv: "process_voice_input kb_query w = (r, w1)"
    by (cases "process_voice_input kb_query w")
  have w1: "trace w1 = trace ?w @ emitted ?w w1"
    using assms pv process_input_trace [of kb_query t ?w]
    by (simp add: process_voice_input_def)
  have pre: "trace ?w = trace w @ [Set_last_voice_input None, Call_process_input From_voice t]"
    by (simp add: effect_defs)
  show ?thesis
  proof (cases r)
    case (Some e)
    then have "snd (main kb_query inp w) = w1"
      using assms pv by (simp add: main_def)
    then show ?thesis using w1 pre by (simp add: emitted_def [of w])
  next
    case None
    let ?w2 = "snd (process_chat_input kb_query (chat_input inp) w1)"
    have m: "snd (main kb_query inp w) = ?w2"
      using assms pv None by (simp add: main_def)
    have "trace ?w2 = trace w1 @ emitted w1 ?w2"
      by (rule process_chat_input_trace)
    then have "trace ?w2 =
        trace w @ [Set_last_voice_input None, Call_process_input From_voice t] @
          emitted ?w w1 @ emitted w1 ?w2"
      using w1 pre by simp
    then show ?thesis using m by (simp add: emitted_def [of w])
  qed
qed

lemma main_consumes:
  assumes "selected_language inp = language w" and "last_voice_input w = Some t" and "t \<noteq> []"
  shows "last_voice_input (snd (main kb_query inp w)) = None"
    and "voice_calls (trace (snd (main kb_query inp w))) = voice_calls (trace w) + 1"
proof -
  obtain r w1 where pv: "process_voice_input kb_query w = (r, w1)"
    by (cases "process_voice_input kb_query w")
  have w1: "last_voice_input w1 = None" "voice_calls (trace w1) = voice_calls (trace w) + 1"
    using process_voice_input_staged [OF assms(2,3), of kb_query] pv by simp_all
  show "last_voice_input (snd (main kb_query inp w)) = None"
    using assms(1) pv w1 by (cases r) (simp_all add: main_def process_chat_input_voice)
  show "voice_calls (trace (snd (main kb_query inp w))) = voice_calls (trace w) + 1"
    using assms(1) pv w1 by (cases r) (simp_all add: main_def process_chat_input_voice)
qed

lemma refresh_cycle_voice:
  "\<not> truthy (last_voice_input (snd (refresh_cycle kb_query inp w))) \<and>
     voice_calls (trace (snd (refresh_cycle kb_query inp w))) \<le> voice_calls (trace w) +
       (if truthy (last_voice_input w) then 1 else 0) \<or>
   last_voice_input (snd (refresh_cycle kb_query inp w)) = last_voice_input w \<and>
     voice_calls (trace (snd (refresh_cycle kb_query inp w))) = voice_calls (trace w)"
proof (cases "mic_clicked inp")
  case False
  then show ?thesis
    using main_staged [of kb_query inp w] main_unstaged [of w kb_query inp]
    by (auto simp: refresh_cycle_def)
next
  case True
  then show ?thesis
    using main_staged [of kb_query inp "toggle_recording w"]
      main_unstaged [of "toggle_recording w" kb_query inp]
    by (auto simp: refresh_cycle_def toggle_recording_voice)
qed

lemma refresh_cycles_voice:
  "voice_calls (trace (refresh_cycles kb_query inps w)) \<le>
     voice_calls (trace w) + (if truthy (last_voice_input w) then 1 else 0)"
proof (induction inps arbitrary: w)
  case Nil
  show ?case by simp
next
  case (Cons inp inps)
  let ?w = "snd (refresh_cycle kb_query inp w)"
  from refresh_cycle_voice [of kb_query inp w] Cons.IH [of ?w]
  show ?case by (auto split: if_splits)
qed

lemma refresh_cycles_unstaged:
  "\<not> truthy (last_voice_input w) \<Longrightarrow>
     \<not> truthy (last_voice_input (refresh_cycles kb_query inps w))"
proof (induction inps arbitrary: w)
  case Nil
  then show ?case by simp
next
  case (Cons inp inps)
  let ?w = "snd (refresh_cycle kb_query inp w)"
  from refresh_cycle_voice [of kb_query inp w] Cons.prems
  have "\<not> truthy (last_voice_input ?w)" by auto
  from Cons.IH [OF this] show ?case by simp
qed

text \<open>
  Whatever the readiness and the recogniser, the listen task leaves the four session keys
  as they were, never calls \<^verbatim>\<open>listen\<close>, and issues neither a write of the session's
  recording flag nor a refresh request.
\<close>

lemma record_audio_session_untouched:
  "messages (snd (record_audio msg is_ready listen w)) = messages w"
  "recording (snd (record_audio msg is_ready listen w)) = recording w"
  "language (snd (record_audio msg is_ready listen w)) = language w"
  "last_voice_input (snd (record_audio msg is_ready listen w)) = last_voice_input w"
  "filter is_cleanup (emitted w (snd (record_audio msg is_ready listen w))) = []"
  "Listen lang timeout \<notin> set (emitted w (snd (record_audio msg is_ready listen w)))"
  by (simp_all add: record_audio_defs log_def emitted_def)

section \<open>The input processing pipeline\<close>

text \<open>
  C1. For every input text that is non-empty, not all whitespace, and not the content of
  a \<^verbatim>\<open>User\<close> message that is the most recent entry of the history, and to which the
  knowledge base answers \<open>response\<close> in the current language, \<^verbatim>\<open>process_input\<close>
  returns normally, appends exactly two messages (\<^verbatim>\<open>User, text\<close> then
  \<^verbatim>\<open>Assistant, response\<close>), queries the knowledge base once and starts exactly one
  thread, the speak task for \<open>response\<close> and the current language. Nothing else of the
  session changes.
\<close>

theorem process_input_appends_two:
  assumes "text \<noteq> []" and "\<not> list_all py_whitespace text"
    and "\<not> (messages w \<noteq> [] \<and> role (last (messages w)) = User \<and>
             content (last (messages w)) = text)"
    and "kb_query text (language w) = Inr response"
  shows "process_input kb_query text w =
     (None,
      w\<lparr>messages := messages w @
           [\<lparr>role = User, content = text\<rparr>, \<lparr>role = Assistant, content = response\<rparr>],
        trace := trace w @
           [Append_message \<lparr>role = User, content = text\<rparr>,
            Kb_query text (language w),
            Append_message \<lparr>role = Assistant, content = response\<rparr>,
            Thread_start (Speak_task response (language w))]\<rparr>)"
  using assms by (auto simp: process_input_def isspace_def effect_defs Let_def)

theorem process_input_appends_two_witness:
  "py_lit ''hi'' \<noteq> [] \<and> \<not> list_all py_whitespace (py_lit ''hi'') \<and>
   \<not> (messages initial_world \<noteq> [] \<and> role (last (messages initial_world)) = User \<and>
        content (last (messages initial_world)) = py_lit ''hi'') \<and>
   example_kb (py_lit ''hi'') (language initial_world) = Inr (py_lit ''In March.'') \<and>
   process_input example_kb (py_lit ''hi'') initial_world =
     (None,
      \<lparr>messages =
         [\<lparr>role = User, content = py_lit ''hi''\<rparr>,
          \<lparr>role = Assistant, content = py_lit ''In March.''\<rparr>],
       recording = False, language = English, last_voice_input = None,
       trace =
         [Append_message \<lparr>role = User, content = py_lit ''hi''\<rparr>,
          Kb_query (py_lit ''hi'') English,
          Append_message \<lparr>role = Assistant, content = py_lit ''In March.''\<rparr>,
          Thread_start (Speak_task (py_lit ''In March.'') English)]\<rparr>)"
proof -
  have h1: "py_lit ''hi'' \<noteq> []"
    by (simp add: py_lit_def)
  have h2: "\<not> list_all py_whitespace (py_lit ''hi'')"
    by (simp add: py_lit_def py_whitespace_def)
  have h3: "\<not> (messages initial_world \<noteq> [] \<and> role (last (messages initial_world)) = User \<and>
        content (last (messages initial_world)) = py_lit ''hi'')"
    by (simp add: initial_world_def)
  have h4: "example_kb (py_lit ''hi'') (language initial_world) = Inr (py_lit ''In March.'')"
    by (simp add: example_defs)
  show ?thesis
    using h1 h2 h3 h4 process_input_appends_two [where kb_query = example_kb, OF h1 h2 h3 h4]
    by (simp add: initial_world_def)
qed

text \<open>
  C6. For every state in which the most recent entry of the history is a \<^verbatim>\<open>User\<close>
  message whose content is identical to the input text, \<^verbatim>\<open>process_input\<close> returns
  normally and leaves the world as it was: nothing is appended, nothing is queried,
  no thread is started and no status message is shown.
\<close>

theorem process_input_duplicate_noop:
  assumes "messages w \<noteq> []"
    and "role (last (messages w)) = User"
    and "content (last (messages w)) = text"
  shows "process_input kb_query text w = (None, w)"
  using assms by (simp add: process_input_def)

theorem process_input_duplicate_noop_witness:
  "messages asked_world \<noteq> [] \<and> role (last (messages asked_world)) = User \<and>
   content (last (messages asked_world)) = py_lit ''hi'' \<and>
   process_input example_kb (py_lit ''hi'') asked_world = (None, asked_world)"
proof -
  have h1: "messages asked_world \<noteq> []"
    by (simp add: asked_world_def initial_world_def)
  have h2: "role (last (messages asked_world)) = User"
    by (simp add: asked_world_def initial_world_def)
  have h3: "content (last (messages asked_world)) = py_lit ''hi''"
    by (simp add: asked_world_def initial_world_def)
  show ?thesis
    using h1 h2 h3 process_input_duplicate_noop [OF h1 h2 h3, of example_kb] by simp
qed

text \<open>
  C7. For every input text that is empty or consists only of whitespace,
  \<^verbatim>\<open>process_input\<close> returns normally and leaves the whole world as it was: the four
  session keys (messages, recording, language, last_voice_input) are unchanged and the
  trace is unchanged, so no message is appended, no query is made, no thread is
  started and no status message is shown.
\<close>

theorem process_input_blank_noop:
  assumes "text = [] \<or> (text \<noteq> [] \<and> list_all py_whitespace text)"
  shows "process_input kb_query text w = (None, w)"
  using assms by (auto simp: process_input_def isspace_def)

theorem process_input_blank_noop_witness:
  "(py_lit '' '' = [] \<or> (py_lit '' '' \<noteq> [] \<and> list_all py_whitespace (py_lit '' ''))) \<and>
   process_input example_kb (py_lit '' '') staged_world = (None, staged_world) \<and>
   process_input example_kb [] staged_world = (None, staged_world)"
proof -
  have h1: "py_lit '' '' = [] \<or> (py_lit '' '' \<noteq> [] \<and> list_all py_whitespace (py_lit '' ''))"
    by (simp add: py_lit_def py_whitespace_def)
  have h2: "([] :: pystr) = [] \<or> (([] :: pystr) \<noteq> [] \<and> list_all py_whitespace [])"
    by simp
  show ?thesis
    using h1 process_input_blank_noop [OF h1, of example_kb staged_world]
      process_input_blank_noop [OF h2, of example_kb staged_world]
    by simp
qed

text \<open>
  C10. If the knowledge-base query raises during \<^verbatim>\<open>process_input\<close>, after the empty
  and duplicate checks have passed, the call is not atomic: the \<^verbatim>\<open>User\<close> message has
  already been appended to the history, no \<^verbatim>\<open>Assistant\<close> message is appended, no
  thread is started, and the exception leaves \<^verbatim>\<open>process_input\<close> towards its caller.
\<close>

theorem process_input_kb_raises:
  assumes "text \<noteq> []" and "\<not> list_all py_whitespace text"
    and "\<not> (messages w \<noteq> [] \<and> role (last (messages w)) = User \<and>
             content (last (messages w)) = text)"
    and "kb_query text (language w) = Inl e"
  shows "process_input kb_query text w =
     (Some e,
      w\<lparr>messages := messages w @ [\<lparr>role = User, content = text\<rparr>],
        trace := trace w @
           [Append_message \<lparr>role = User, content = text\<rparr>, Kb_query text (language w)]\<rparr>)"
  using assms by (auto simp: process_input_def isspace_def effect_defs Let_def)

theorem process_input_kb_raises_witness:
  "py_lit ''crash'' \<noteq> [] \<and> \<not> list_all py_whitespace (py_lit ''crash'') \<and>
   \<not> (messages initial_world \<noteq> [] \<and> role (last (messages initial_world)) = User \<and>
        content (last (messages initial_world)) = py_lit ''crash'') \<and>
   example_kb (py_lit ''crash'') (language initial_world) =
     Inl (Py_Exception (py_lit ''index missing'')) \<and>
   process_input example_kb (py_lit ''crash'') initial_world =
     (Some (Py_Exception (py_lit ''index missing'')),
      \<lparr>messages = [\<lparr>role = User, content = py_lit ''crash''\<rparr>],
       recording = False, language = English, last_voice_input = None,
       trace =
         [Append_message \<lparr>role = User, content = py_lit ''crash''\<rparr>,
          Kb_query (py_lit ''crash'') English]\<rparr>)"
proof -
  have h1: "py_lit ''crash'' \<noteq> []"
    by (simp add: py_lit_def)
  have h2: "\<not> list_all py_whitespace (py_lit ''crash'')"
    by (simp add: py_lit_def py_whitespace_def)
  have h3: "\<not> (messages initial_world \<noteq> [] \<and> role (last (messages initial_world)) = User \<and>
        content (last (messages initial_world)) = py_lit ''crash'')"
    by (simp add: initial_world_def)
  have h4: "example_kb (py_lit ''crash'') (language initial_world) =
      Inl (Py_Exception (py_lit ''index missing''))"
    by (simp add: example_defs)
  show ?thesis
    using h1 h2 h3 h4 process_input_kb_raises [where kb_query = example_kb, OF h1 h2 h3 h4]
    by (simp add: initial_world_def)
qed

text \<open>
  C4, evaluated on the code. The same question is submitted twice in a row to a fresh
  session, the second call running on the state the first one returned. The first call
  leaves an \<^verbatim>\<open>Assistant\<close> message as the most recent entry, so the check of line 100
  does not fire: the second call appends two more messages, queries the knowledge base
  again and starts a second speak task.
\<close>

theorem process_input_repeat_processed_again:
  "snd (process_input example_kb (py_lit ''When does the program start?'')
          (snd (process_input example_kb (py_lit ''When does the program start?'')
                 initial_world))) =
   \<lparr>messages =
      [\<lparr>role = User, content = py_lit ''When does the program start?''\<rparr>,
       \<lparr>role = Assistant, content = py_lit ''In March.''\<rparr>,
       \<lparr>role = User, content = py_lit ''When does the program start?''\<rparr>,
       \<lparr>role = Assistant, content = py_lit ''In March.''\<rparr>],
    recording = False, language = English, last_voice_input = None,
    trace =
      [Append_message \<lparr>role = User, content = py_lit ''When does the program start?''\<rparr>,
       Kb_query (py_lit ''When does the program start?'') English,
       Append_message \<lparr>role = Assistant, content = py_lit ''In March.''\<rparr>,
       Thread_start (Speak_task (py_lit ''In March.'') English),
       Append_message \<lparr>role = User, content = py_lit ''When does the program start?''\<rparr>,
       Kb_query (py_lit ''When does the program start?'') English,
       Append_message \<lparr>role = Assistant, content = py_lit ''In March.''\<rparr>,
       Thread_start (Speak_task (py_lit ''In March.'') English)]\<rparr>"
  by (simp add: process_input_def isspace_def py_whitespace_def example_defs effect_defs
      Let_def)

text \<open>
  C5. The speak task that \<^verbatim>\<open>process_input\<close> starts plays audio only if the synthesis
  is ready and the playback succeeds. Whatever the readiness and whatever the playback
  does, nothing reaches the thread that started the task and the four session keys are
  unchanged; after a call of \<^verbatim>\<open>process_input\<close> that answered, the history still ends
  with the user's message and the response.
\<close>

theorem speak_task_contained:
  "fst (run_thread (speak synthesis_ready synthesize text lang) w) = None \<and>
   snd (run_thread (speak synthesis_ready synthesize text lang) w) =
     w\<lparr>trace := trace w @
         (if synthesis_ready \<and> synthesize text lang = None then [Audio_played text lang]
          else [])\<rparr> \<and>
   (text' \<noteq> [] \<and> \<not> list_all py_whitespace text' \<and>
    \<not> (messages w \<noteq> [] \<and> role (last (messages w)) = User \<and>
         content (last (messages w)) = text') \<and>
    kb_query text' (language w) = Inr text \<longrightarrow>
      messages (snd (run_thread (speak synthesis_ready synthesize text (language w))
                 (snd (process_input kb_query text' w)))) =
        messages w @
          [\<lparr>role = User, content = text'\<rparr>, \<lparr>role = Assistant, content = text\<rparr>])"
  by (auto simp: run_thread_def speak_def process_input_def isspace_def effect_defs Let_def
      split: option.splits)

theorem speak_task_contained_witness:
  "py_lit ''hi'' \<noteq> [] \<and> \<not> list_all py_whitespace (py_lit ''hi'') \<and>
   \<not> (messages initial_world \<noteq> [] \<and> role (last (messages initial_world)) = User \<and>
        content (last (messages initial_world)) = py_lit ''hi'') \<and>
   example_kb (py_lit ''hi'') (language initial_world) = Inr (py_lit ''In March.'') \<and>
   fst (run_thread (speak True broken_synthesizer (py_lit ''In March.'') English)
          initial_world) = None \<and>
   messages (snd (run_thread
       (speak True broken_synthesizer (py_lit ''In March.'') (language initial_world))
       (snd (process_input example_kb (py_lit ''hi'') initial_world)))) =
     messages initial_world @
       [\<lparr>role = User, content = py_lit ''hi''\<rparr>,
        \<lparr>role = Assistant, content = py_lit ''In March.''\<rparr>]"
proof -
  have h: "py_lit ''hi'' \<noteq> [] \<and> \<not> list_all py_whitespace (py_lit ''hi'') \<and>
      \<not> (messages initial_world \<noteq> [] \<and> role (last (messages initial_world)) = User \<and>
           content (last (messages initial_world)) = py_lit ''hi'') \<and>
      example_kb (py_lit ''hi'') (language initial_world) = Inr (py_lit ''In March.'')"
    by (simp add: example_defs py_whitespace_def)
  show ?thesis
    using h
      speak_task_contained [of True broken_synthesizer "py_lit ''In March.''" English
        initial_world "py_lit ''hi''" example_kb]
      speak_task_contained [of True broken_synthesizer "py_lit ''In March.''"
        "language initial_world" initial_world "py_lit ''hi''" example_kb]
    by blast
qed

section \<open>The recording state machine\<close>

text \<open>
  C9. \<^verbatim>\<open>toggle_recording\<close> called while recording is true sets recording to false and
  does nothing else: it starts no thread and has no effect on a task in flight. Called
  while recording is false it sets recording to true and starts exactly one thread, the
  listen task.
\<close>

theorem toggle_recording_spec:
  "(recording w \<longrightarrow>
      toggle_recording w = w\<lparr>recording := False, trace := trace w @ [Set_recording False]\<rparr>) \<and>
   (\<not> recording w \<longrightarrow>
      toggle_recording w =
        w\<lparr>recording := True,
          trace := trace w @ [Set_recording True, Thread_start Record_audio_task]\<rparr>)"
  by (simp add: toggle_recording_def effect_defs)

theorem toggle_recording_spec_witness:
  "recording recording_world \<and>
   toggle_recording recording_world =
     \<lparr>messages = [], recording = False, language = English, last_voice_input = None,
      trace = [Set_recording False]\<rparr> \<and>
   \<not> recording initial_world \<and>
   toggle_recording initial_world =
     \<lparr>messages = [], recording = True, language = English, last_voice_input = None,
      trace = [Set_recording True, Thread_start Record_audio_task]\<rparr>"
  using toggle_recording_spec [of recording_world] toggle_recording_spec [of initial_world]
  by (simp add: recording_world_def initial_world_def)

text \<open>
  C3, evaluated on the code. The microphone button is pressed in a fresh session:
  \<^verbatim>\<open>toggle_recording\<close> sets recording to true and starts the listen task. Whether the
  recognition is ready or not, the task ends with the session's recording flag still
  true and without a refresh request: its assignment of lines 69 and 90 goes to the
  thread's own empty store and its \<^verbatim>\<open>st.rerun()\<close> has no script run to restart.
\<close>

theorem record_audio_recording_stays_set:
  "record_audio example_attribute_error True failing_listener
     (toggle_recording initial_world) =
     (None,
      \<lparr>messages = [], recording = True, language = English, last_voice_input = None,
       trace =
         [Set_recording True, Thread_start Record_audio_task,
          St_spinner (py_lit ''Listening...''),
          St_error (py_lit ''Error during voice recognition: '' @ example_attribute_error),
          Traceback_print, Bare_set_recording False, Bare_rerun]\<rparr>) \<and>
   record_audio example_attribute_error False failing_listener
     (toggle_recording initial_world) =
     (None,
      \<lparr>messages = [], recording = True, language = English, last_voice_input = None,
       trace =
         [Set_recording True, Thread_start Record_audio_task,
          St_error (py_lit
            ''Voice input is not available. Please check if the speech recognition models are properly installed.''),
          Bare_set_recording False, Bare_rerun]\<rparr>) \<and>
   filter is_cleanup (emitted (toggle_recording initial_world)
     (snd (record_audio example_attribute_error True failing_listener
            (toggle_recording initial_world)))) = []"
  by (simp add: record_audio_defs toggle_recording_def effect_defs initial_world_def
      emitted_def)


section \<open>The refresh coordinator\<close>

text \<open>
  C2. A staged transcript is consumed at most once. A run of the script that reaches
  line 185 with a transcript \<open>t\<close> staged clears \<^verbatim>\<open>last_voice_input\<close> first and calls
  \<^verbatim>\<open>process_input\<close> on \<open>t\<close> after that, once, and \<^verbatim>\<open>last_voice_input\<close> is
  \<^verbatim>\<open>None\<close> when the run ends, however it ends. Over any number of successive refresh
  cycles, \<^verbatim>\<open>process_input\<close> is called on a staged transcript at most once if one was
  staged at the start and never otherwise, and nothing is staged again by the cycles
  themselves.
\<close>

theorem staged_transcript_consumed_once:
  "(selected_language inp = language w \<and> last_voice_input w = Some t \<and> t \<noteq> [] \<longrightarrow>
      last_voice_input (snd (main kb_query inp w)) = None \<and>
      take 2 (emitted w (snd (main kb_query inp w))) =
        [Set_last_voice_input None, Call_process_input From_voice t] \<and>
      voice_calls (trace (snd (main kb_query inp w))) = voice_calls (trace w) + 1) \<and>
   voice_calls (trace (refresh_cycles kb_query inps w)) \<le>
     voice_calls (trace w) + (if truthy (last_voice_input w) then 1 else 0) \<and>
   (\<not> truthy (last_voice_input w) \<longrightarrow>
      \<not> truthy (last_voice_input (refresh_cycles kb_query inps w)))"
  using main_consumes [of inp w t kb_query] main_order [of inp w t kb_query]
    refresh_cycles_voice [of kb_query inps w] refresh_cycles_unstaged [of w kb_query inps]
  by blast

theorem staged_transcript_consumed_once_witness:
  "selected_language idle_cycle = language staged_world \<and>
   last_voice_input staged_world = Some (py_lit ''hello'') \<and> py_lit ''hello'' \<noteq> [] \<and>
   last_voice_input (snd (main example_kb idle_cycle staged_world)) = None \<and>
   take 2 (emitted staged_world (snd (main example_kb idle_cycle staged_world))) =
     [Set_last_voice_input None, Call_process_input From_voice (py_lit ''hello'')] \<and>
   voice_calls (trace (refresh_cycles example_kb [idle_cycle, idle_cycle, idle_cycle]
     staged_world)) \<le> 1 \<and>
   \<not> truthy (last_voice_input initial_world) \<and>
   \<not> truthy (last_voice_input (refresh_cycles example_kb [idle_cycle, idle_cycle]
     initial_world))"
proof -
  have h: "selected_language idle_cycle = language staged_world \<and>
      last_voice_input staged_world = Some (py_lit ''hello'') \<and> py_lit ''hello'' \<noteq> []"
    by (simp add: example_defs)
  have t: "truthy (last_voice_input staged_world)" "voice_calls (trace staged_world) = 0"
    "\<not> truthy (last_voice_input initial_world)"
    by (simp_all add: example_defs)
  show ?thesis
    using h t
      staged_transcript_consumed_once [of idle_cycle staged_world "py_lit ''hello''"
        example_kb "[idle_cycle, idle_cycle, idle_cycle]"]
      staged_transcript_consumed_once [of idle_cycle initial_world "py_lit ''hello''"
        example_kb "[idle_cycle, idle_cycle]"]
    by simp
qed

end
